theory Spec2Isabelle
  imports Complex_Main
begin

section \<open>Python values that a context payload carries\<close>

text \<open>
  The engine of \<^verbatim>\<open>src/agents/observer_agent.py\<close> receives a context of type
  \<^verbatim>\<open>Dict[str, Any]\<close>. The values the repository itself puts there are numbers, strings,
  booleans and a \<^verbatim>\<open>datetime\<close> under the key \<^verbatim>\<open>timestamp\<close>; \<^verbatim>\<open>None\<close> is added because
  \<^verbatim>\<open>dict.get\<close> and form fields produce it.

  A Python float is an IEEE double. Python compares floats with floats, and ints with
  floats, by their exact mathematical values, so a finite double is represented here by
  the rational number it denotes; the two infinities and NaN are separate constructors.
\<close>

datatype pyfloat = Finite rat | PosInf | NegInf | NaN

text \<open>
  A naive \<^verbatim>\<open>datetime\<close> (what \<^verbatim>\<open>datetime.now()\<close> returns) is the number of microseconds
  since 0001-01-01T00:00:00 on the local calendar.
\<close>

datatype datetime = Datetime (micros: int)

datatype pyval =
    VNone
  | VBool bool
  | VInt int
  | VFloat pyfloat
  | VStr string
  | VDatetime datetime

text \<open>A dict with string keys, in insertion order; \<^verbatim>\<open>dict.get\<close> is the lookup below.\<close>

type_synonym py_context = "(string \<times> pyval) list"

datatype py_error = TypeError | AttributeError

definition dict_get :: "py_context \<Rightarrow> string \<Rightarrow> pyval \<Rightarrow> pyval" where
  "dict_get ctx k dflt = (case map_of ctx k of Some v \<Rightarrow> v | None \<Rightarrow> dflt)"

subsection \<open>Operators the rules apply\<close>

text \<open>\<^verbatim>\<open>a > b\<close> on two floats: false as soon as either side is NaN.\<close>

fun float_gt :: "pyfloat \<Rightarrow> pyfloat \<Rightarrow> bool" where
  "float_gt NaN y = False"
| "float_gt x NaN = False"
| "float_gt (Finite a) (Finite b) = (b < a)"
| "float_gt (Finite a) NegInf = True"
| "float_gt (Finite a) PosInf = False"
| "float_gt PosInf PosInf = False"
| "float_gt PosInf y = True"
| "float_gt NegInf y = False"

text \<open>
  The numeric value of an operand of \<^verbatim>\<open>>\<close>: \<^verbatim>\<open>bool\<close> is a subclass of \<^verbatim>\<open>int\<close>
  (\<^verbatim>\<open>True == 1\<close>); a string, \<^verbatim>\<open>None\<close> or a datetime has none.
\<close>

fun num_value :: "pyval \<Rightarrow> pyfloat option" where
  "num_value (VBool b) = Some (Finite (if b then 1 else 0))"
| "num_value (VInt i) = Some (Finite (of_int i))"
| "num_value (VFloat f) = Some f"
| "num_value VNone = None"
| "num_value (VStr s) = None"
| "num_value (VDatetime t) = None"

text \<open>
  \<^verbatim>\<open>v > c\<close> for a numeric literal \<open>c\<close>, the only shape of comparison in the rules:
  \<^verbatim>\<open>TypeError\<close> when \<open>v\<close> is not a number.
\<close>

definition py_gt :: "pyval \<Rightarrow> pyfloat \<Rightarrow> py_error + pyval" where
  "py_gt v c = (case num_value v of
                  None \<Rightarrow> Inl TypeError
                | Some x \<Rightarrow> Inr (VBool (float_gt x c)))"

text \<open>
  Truth value testing, as \<^verbatim>\<open>if rule_func(context):\<close> does it. The float zero, of
  either sign, is the rational 0.
\<close>

fun truthy :: "pyval \<Rightarrow> bool" where
  "truthy VNone = False"
| "truthy (VBool b) = b"
| "truthy (VInt i) = (i \<noteq> 0)"
| "truthy (VFloat f) = (f \<noteq> Finite 0)"
| "truthy (VStr s) = (s \<noteq> [])"
| "truthy (VDatetime t) = True"

text \<open>
  \<^verbatim>\<open>str.lower()\<close>. A string is held as its UTF-8 bytes. Outside A to Z no character
  has a lower case made of letters of the three country names below, so lowering the
  ASCII capitals decides the membership test exactly.
\<close>

definition lower_char :: "char \<Rightarrow> char" where
  "lower_char c =
     (case map_of (zip ''ABCDEFGHIJKLMNOPQRSTUVWXYZ'' ''abcdefghijklmnopqrstuvwxyz'') c of
        Some l \<Rightarrow> l
      | None \<Rightarrow> c)"

definition lower :: "string \<Rightarrow> string" where
  "lower s = map lower_char s"

definition py_lower :: "pyval \<Rightarrow> py_error + string" where
  "py_lower v = (case v of VStr s \<Rightarrow> Inr (lower s) | _ \<Rightarrow> Inl AttributeError)"

text \<open>\<^verbatim>\<open>timestamp.hour\<close>, an attribute of datetimes only.\<close>

definition hour :: "datetime \<Rightarrow> int" where
  "hour t = (micros t div 3600000000) mod 24"

definition py_hour :: "pyval \<Rightarrow> py_error + int" where
  "py_hour v = (case v of VDatetime t \<Rightarrow> Inr (hour t) | _ \<Rightarrow> Inl AttributeError)"

section \<open>RiskAnalyzer\<close>

text \<open>
  A rule is a lambda over the context. The last rule reads the clock
  (\<^verbatim>\<open>datetime.now()\<close> is the default of its \<^verbatim>\<open>get\<close>), so every rule takes the clock
  reading of the call as well. A rule returns a Python value or raises.
\<close>

type_synonym rule_func = "datetime \<Rightarrow> py_context \<Rightarrow> py_error + pyval"

definition high_amount :: rule_func where
  "high_amount now ctx = py_gt (dict_get ctx ''amount'' (VInt 0)) (Finite 10000)"

definition suspicious_country :: rule_func where
  "suspicious_country now ctx =
     (case py_lower (dict_get ctx ''country'' (VStr '''')) of
        Inl e \<Rightarrow> Inl e
      | Inr s \<Rightarrow> Inr (VBool (s \<in> set [''nigeria'', ''somalia'', ''afghanistan''])))"

definition weekend_activity :: rule_func where
  "weekend_activity now ctx = Inr (dict_get ctx ''is_weekend'' (VBool False))"

text \<open>The literal \<^verbatim>\<open>0.8\<close> is the double 3602879701896397 / 2^52.\<close>

definition high_risk_score :: rule_func where
  "high_risk_score now ctx =
     py_gt (dict_get ctx ''risk_score'' (VInt 0)) (Finite (3602879701896397 / 4503599627370496))"

definition multiple_attempts :: rule_func where
  "multiple_attempts now ctx = py_gt (dict_get ctx ''attempt_count'' (VInt 1)) (Finite 3)"

definition is_unusual_time :: "int \<Rightarrow> bool" where
  "is_unusual_time h = (h \<ge> 23 \<or> h \<le> 6)"

definition unusual_time :: rule_func where
  "unusual_time now ctx =
     (case py_hour (dict_get ctx ''timestamp'' (VDatetime now)) of
        Inl e \<Rightarrow> Inl e
      | Inr h \<Rightarrow> Inr (VBool (is_unusual_time h)))"

text \<open>\<^verbatim>\<open>self.risk_rules\<close>: a dict literal, iterated in declaration order.\<close>

definition risk_rules :: "(string \<times> rule_func) list" where
  "risk_rules =
     [(''high_amount'', high_amount),
      (''suspicious_country'', suspicious_country),
      (''weekend_activity'', weekend_activity),
      (''high_risk_score'', high_risk_score),
      (''multiple_attempts'', multiple_attempts),
      (''unusual_time'', unusual_time)]"

text \<open>
  The loop of \<^verbatim>\<open>analyze_risk\<close>: each rule runs inside \<^verbatim>\<open>try\<close>; a truthy result appends
  the rule's name, an exception is printed and the loop goes on.
\<close>

fun eval_rules :: "(string \<times> rule_func) list \<Rightarrow> datetime \<Rightarrow> py_context \<Rightarrow> string list \<Rightarrow> string list" where
  "eval_rules [] now ctx triggered_rules = triggered_rules"
| "eval_rules ((rule_name, rule_func) # rest) now ctx triggered_rules =
     (case rule_func now ctx of
        Inr v \<Rightarrow>
          (if truthy v then eval_rules rest now ctx (triggered_rules @ [rule_name])
           else eval_rules rest now ctx triggered_rules)
      | Inl e \<Rightarrow> eval_rules rest now ctx triggered_rules)"

definition risk_of_count :: "string list \<Rightarrow> string \<times> string list" where
  "risk_of_count triggered_rules =
     (if length triggered_rules \<ge> 3 then (''CRITICAL'', triggered_rules)
      else if length triggered_rules \<ge> 2 then (''HIGH'', triggered_rules)
      else if length triggered_rules \<ge> 1 then (''MEDIUM'', triggered_rules)
      else (''LOW'', triggered_rules))"

definition analyze_rules :: "(string \<times> rule_func) list \<Rightarrow> datetime \<Rightarrow> py_context \<Rightarrow> string \<times> string list" where
  "analyze_rules rules now ctx = risk_of_count (eval_rules rules now ctx [])"

definition analyze_risk :: "datetime \<Rightarrow> py_context \<Rightarrow> string \<times> string list" where
  "analyze_risk now ctx = analyze_rules risk_rules now ctx"

text \<open>A rule triggers when it returns a truthy value; a rule that raises does not.\<close>

definition triggers :: "datetime \<Rightarrow> py_context \<Rightarrow> string \<times> rule_func \<Rightarrow> bool" where
  "triggers now ctx r = (case snd r now ctx of Inr v \<Rightarrow> truthy v | Inl e \<Rightarrow> False)"

section \<open>Observation and DatabaseManager\<close>

text \<open>The dataclass \<^verbatim>\<open>Observation\<close>; its field \<^verbatim>\<open>context\<close> is \<open>obs_context\<close> here.\<close>

record observation =
  timestamp :: datetime
  user :: string
  action :: string
  obs_context :: py_context
  risk_level :: string
  alert_triggered :: bool
  processed :: bool

text \<open>
  \<^verbatim>\<open>json.dumps\<close> of a context. The text it returns is represented by the JSON document
  that the text spells. The encoder knows \<^verbatim>\<open>None\<close>, booleans, ints, floats and strings;
  for any other object its \<^verbatim>\<open>default\<close> hook raises \<^verbatim>\<open>TypeError\<close>, and a \<^verbatim>\<open>datetime\<close> is
  such an object.
\<close>

datatype json = JNull | JBool bool | JInt int | JFloat pyfloat | JStr string

fun json_value :: "pyval \<Rightarrow> py_error + json" where
  "json_value VNone = Inr JNull"
| "json_value (VBool b) = Inr (JBool b)"
| "json_value (VInt i) = Inr (JInt i)"
| "json_value (VFloat f) = Inr (JFloat f)"
| "json_value (VStr s) = Inr (JStr s)"
| "json_value (VDatetime t) = Inl TypeError"

fun json_dumps :: "py_context \<Rightarrow> py_error + (string \<times> json) list" where
  "json_dumps [] = Inr []"
| "json_dumps ((k, v) # rest) =
     (case json_value v of
        Inl e \<Rightarrow> Inl e
      | Inr j \<Rightarrow> (case json_dumps rest of
                    Inl e \<Rightarrow> Inl e
                  | Inr js \<Rightarrow> Inr ((k, j) # js)))"

text \<open>
  The two tables of \<^verbatim>\<open>init_database\<close>, rows in insertion order (the autoincremented
  \<^verbatim>\<open>id\<close> of a row is its position). A \<^verbatim>\<open>timestamp\<close> column holds the ISO text of the
  datetime kept here; \<^verbatim>\<open>acknowledged\<close> takes its column default.
\<close>

record observation_row =
  o_timestamp :: datetime
  o_user :: string
  o_action :: string
  o_context :: "(string \<times> json) list"
  o_risk_level :: string
  o_alert_triggered :: bool
  o_processed :: bool

record alert_row =
  a_timestamp :: datetime
  a_user :: string
  a_alert_type :: string
  a_message :: string
  a_severity :: string
  a_acknowledged :: bool

record database =
  observations :: "observation_row list"
  alerts :: "alert_row list"

text \<open>
  \<^verbatim>\<open>save_observation\<close>: the parameter tuple is built first, so an exception of
  \<^verbatim>\<open>json.dumps\<close> leaves the table as it was.
\<close>

definition save_observation :: "database \<Rightarrow> observation \<Rightarrow> py_error + database" where
  "save_observation db obs =
     (case json_dumps (obs_context obs) of
        Inl e \<Rightarrow> Inl e
      | Inr blob \<Rightarrow>
          Inr (db\<lparr>observations := observations db @
                 [\<lparr>o_timestamp = timestamp obs, o_user = user obs, o_action = action obs,
                   o_context = blob, o_risk_level = risk_level obs,
                   o_alert_triggered = alert_triggered obs, o_processed = processed obs\<rparr>]\<rparr>))"

section \<open>AlertManager\<close>

definition default_thresholds :: "(string \<times> nat) list" where
  "default_thresholds = [(''CRITICAL'', 0), (''HIGH'', 1), (''MEDIUM'', 3), (''LOW'', 10)]"

text \<open>\<^verbatim>\<open>should_alert\<close> looks the threshold up and then answers \<^verbatim>\<open>True\<close> on both paths.\<close>

definition should_alert :: "(string \<times> nat) list \<Rightarrow> observation \<Rightarrow> bool" where
  "should_alert alert_thresholds obs =
     (let level = risk_level obs;
          threshold = (case map_of alert_thresholds level of Some t \<Rightarrow> t | None \<Rightarrow> 5)
      in if level = ''CRITICAL'' then True else True)"

fun join :: "string \<Rightarrow> string list \<Rightarrow> string" where
  "join sep [] = []"
| "join sep [x] = x"
| "join sep (x # y # rest) = x @ sep @ join sep (y # rest)"

definition create_alert :: "datetime \<Rightarrow> database \<Rightarrow> observation \<Rightarrow> string list \<Rightarrow> database" where
  "create_alert now db obs triggered_rules =
     (let alert_message = ''Risk detected for user '' @ user obs @ '': '' @ join '', '' triggered_rules
      in db\<lparr>alerts := alerts db @
              [\<lparr>a_timestamp = now, a_user = user obs, a_alert_type = action obs,
                a_message = alert_message, a_severity = risk_level obs,
                a_acknowledged = False\<rparr>]\<rparr>)"

section \<open>ObserverAgent\<close>

text \<open>
  The agent's fields; \<^verbatim>\<open>alert_thresholds\<close> is the table its AlertManager holds and
  \<^verbatim>\<open>stats\<close> is a \<^verbatim>\<open>defaultdict(int)\<close>, a total function with 0 for a key never written.
\<close>

record observer_agent =
  observed_actions :: "observation list"
  db_manager :: database
  alert_thresholds :: "(string \<times> nat) list"
  is_monitoring :: bool
  stats :: "string \<Rightarrow> int"

text \<open>
  \<^verbatim>\<open>__init__\<close>: the tables are created only if the database file does not have them, so
  the rows found in the file are a parameter.
\<close>

definition init_agent :: "database \<Rightarrow> observer_agent" where
  "init_agent db =
     \<lparr>observed_actions = [], db_manager = db, alert_thresholds = default_thresholds,
      is_monitoring = False, stats = (\<lambda>k. 0)\<rparr>"

text \<open>
  One call of \<^verbatim>\<open>watch_action\<close> reads the clock three times: in the last rule, for the
  observation's timestamp and for the alert's timestamp.
\<close>

record clock =
  now_rules :: datetime
  now_observation :: datetime
  now_alert :: datetime

text \<open>
  \<^verbatim>\<open>watch_action\<close>. The result is the returned observation or the exception that left
  the method, together with the agent as the call leaves it: an exception of
  \<^verbatim>\<open>save_observation\<close> comes after \<^verbatim>\<open>create_alert\<close> has written its row.
\<close>

definition watch_action ::
    "clock \<Rightarrow> string \<Rightarrow> string \<Rightarrow> py_context \<Rightarrow> observer_agent \<Rightarrow> (py_error + observation) \<times> observer_agent" where
  "watch_action clk usr act ctx s =
     (let (level, triggered_rules) = analyze_risk (now_rules clk) ctx;
          created = \<lparr>timestamp = now_observation clk, user = usr, action = act,
                     obs_context = ctx, risk_level = level, alert_triggered = False,
                     processed = False\<rparr>;
          alerting = should_alert (alert_thresholds s) created;
          obs = (if alerting then created\<lparr>alert_triggered := True\<rparr> else created);
          db1 = (if alerting then create_alert (now_alert clk) (db_manager s) obs triggered_rules
                 else db_manager s)
      in case save_observation db1 obs of
           Inl e \<Rightarrow> (Inl e, s\<lparr>db_manager := db1\<rparr>)
         | Inr db2 \<Rightarrow>
             (let appended = observed_actions s @ [obs];
                  kept = (if length appended > 1000 then tl appended else appended);
                  stats1 = (stats s)(''total_observations'' := stats s ''total_observations'' + 1);
                  level_key = ''risk_'' @ lower level;
                  stats2 = stats1(level_key := stats1 level_key + 1);
                  stats3 = (if alert_triggered obs
                            then stats2(''total_alerts'' := stats2 ''total_alerts'' + 1)
                            else stats2)
              in (Inr obs, s\<lparr>observed_actions := kept, db_manager := db2, stats := stats3\<rparr>)))"

text \<open>\<^verbatim>\<open>datetime.now() - timedelta(days=7)\<close> and the sweep that uses it.\<close>

definition minus_days :: "datetime \<Rightarrow> int \<Rightarrow> datetime" where
  "minus_days t d = Datetime (micros t - d * 86400000000)"

definition datetime_ge :: "datetime \<Rightarrow> datetime \<Rightarrow> bool" where
  "datetime_ge a b = (micros b \<le> micros a)"

definition cleanup_old_observations :: "datetime \<Rightarrow> observer_agent \<Rightarrow> observer_agent" where
  "cleanup_old_observations now s =
     (let cutoff_time = minus_days now 7
      in s\<lparr>observed_actions :=
             filter (\<lambda>obs. datetime_ge (timestamp obs) cutoff_time) (observed_actions s)\<rparr>)"

text \<open>
  A sequence of calls of \<^verbatim>\<open>watch_action\<close> on one agent, each with its clock readings
  and arguments; the results are collected in call order.
\<close>

type_synonym watch_call = "clock \<times> string \<times> string \<times> py_context"

fun watch_many :: "watch_call list \<Rightarrow> observer_agent \<Rightarrow> (py_error + observation) list \<times> observer_agent" where
  "watch_many [] s = ([], s)"
| "watch_many ((clk, usr, act, ctx) # calls) s =
     (let (r, s1) = watch_action clk usr act ctx s;
          (rs, s2) = watch_many calls s1
      in (r # rs, s2))"

fun returned :: "(py_error + observation) list \<Rightarrow> observation list" where
  "returned [] = []"
| "returned (Inr obs # rs) = obs # returned rs"
| "returned (Inl e # rs) = returned rs"

section \<open>What one call writes\<close>

text \<open>
  Names for the three things a call of \<^verbatim>\<open>watch_action\<close> produces, used to state what the
  call does: the observation it builds once the alert decision is taken, the row that
  \<^verbatim>\<open>create_alert\<close> inserts for it, and the row that \<^verbatim>\<open>save_observation\<close> inserts when the
  context serialises to \<open>blob\<close>.
\<close>

definition observed :: "clock \<Rightarrow> string \<Rightarrow> string \<Rightarrow> py_context \<Rightarrow> observation" where
  "observed clk usr act ctx =
     \<lparr>timestamp = now_observation clk, user = usr, action = act, obs_context = ctx,
      risk_level = fst (analyze_risk (now_rules clk) ctx), alert_triggered = True,
      processed = False\<rparr>"

definition alert_of :: "clock \<Rightarrow> string \<Rightarrow> string \<Rightarrow> py_context \<Rightarrow> alert_row" where
  "alert_of clk usr act ctx =
     \<lparr>a_timestamp = now_alert clk, a_user = usr, a_alert_type = act,
      a_message = ''Risk detected for user '' @ usr @ '': '' @
                  join '', '' (snd (analyze_risk (now_rules clk) ctx)),
      a_severity = fst (analyze_risk (now_rules clk) ctx), a_acknowledged = False\<rparr>"

definition row_of :: "clock \<Rightarrow> string \<Rightarrow> string \<Rightarrow> py_context \<Rightarrow> (string \<times> json) list \<Rightarrow> observation_row" where
  "row_of clk usr act ctx blob =
     \<lparr>o_timestamp = now_observation clk, o_user = usr, o_action = act, o_context = blob,
      o_risk_level = fst (analyze_risk (now_rules clk) ctx), o_alert_triggered = True,
      o_processed = False\<rparr>"

section \<open>Concrete inputs\<close>

text \<open>
  Clock readings on Saturday 2024-01-06: 03:00:00, 12:00:00, 12:00:01 and 23:30:00; and the
  contexts of the two scenarios of the specification, of the form handler
  \<^verbatim>\<open>submit_observation\<close> (which adds the current datetime under \<^verbatim>\<open>timestamp\<close>) and of a
  caller that sends the amount as text. The float literals \<^verbatim>\<open>0.92\<close> and \<^verbatim>\<open>0.9\<close> are the
  doubles 8286623314361713 / 2^53 and 8106479329266893 / 2^53.
\<close>

definition at_night :: datetime where
  "at_night = Datetime 63840106800000000"

definition at_noon :: datetime where
  "at_noon = Datetime 63840139200000000"

definition after_noon :: datetime where
  "after_noon = Datetime 63840139201000000"

definition late_evening :: datetime where
  "late_evening = Datetime 63840180600000000"

definition late_clock :: clock where
  "late_clock =
     \<lparr>now_rules = late_evening, now_observation = late_evening, now_alert = late_evening\<rparr>"

definition noon_clock :: clock where
  "noon_clock = \<lparr>now_rules = at_noon, now_observation = at_noon, now_alert = after_noon\<rparr>"

definition night_clock :: clock where
  "night_clock = \<lparr>now_rules = at_night, now_observation = at_night, now_alert = at_night\<rparr>"

definition priya_context :: py_context where
  "priya_context =
     [(''amount'', VInt 9500), (''country'', VStr ''india''), (''is_weekend'', VBool True),
      (''risk_score'', VFloat (Finite (8286623314361713 / 9007199254740992))),
      (''attempt_count'', VInt 1)]"

definition bob_context :: py_context where
  "bob_context = [(''amount'', VInt 0)]"

definition weekend_context :: py_context where
  "weekend_context = [(''is_weekend'', VBool True)]"

definition form_context :: py_context where
  "form_context =
     [(''amount'', VFloat (Finite 50000)), (''country'', VStr ''Nigeria''),
      (''risk_score'', VFloat (Finite (8106479329266893 / 9007199254740992))),
      (''is_weekend'', VBool True), (''attempt_count'', VInt 5),
      (''timestamp'', VDatetime at_noon)]"

definition text_amount_context :: py_context where
  "text_amount_context = [(''amount'', VStr ''9500''), (''is_weekend'', VBool True)]"

definition empty_database :: database where
  "empty_database = \<lparr>observations = [], alerts = []\<rparr>"

definition stale_observation :: observation where
  "stale_observation =
     \<lparr>timestamp = Datetime 63837028800000000, user = ''Alice'', action = ''login_attempt'',
      obs_context = bob_context, risk_level = ''LOW'', alert_triggered = True,
      processed = False\<rparr>"

definition fresh_observation :: observation where
  "fresh_observation =
     \<lparr>timestamp = at_night, user = ''Bob'', action = ''login_attempt'',
      obs_context = bob_context, risk_level = ''MEDIUM'', alert_triggered = True,
      processed = False\<rparr>"

definition timestamped_context :: py_context where
  "timestamped_context = [(''amount'', VInt 0), (''timestamp'', VDatetime at_noon)]"

text \<open>
  1001 calls of the Bob scenario, the \<open>i\<close>-th made \<open>i\<close> microseconds after noon.
\<close>

definition tick :: "nat \<Rightarrow> watch_call" where
  "tick i =
     (\<lparr>now_rules = Datetime (63840139200000000 + int i),
       now_observation = Datetime (63840139200000000 + int i),
       now_alert = Datetime (63840139200000000 + int i)\<rparr>,
      ''Bob'', ''login_attempt'', bob_context)"

definition thousand_and_one :: "watch_call list" where
  "thousand_and_one = map tick [0..<1001]"

section \<open>Classification\<close>

lemma eval_rules_filter:
  "eval_rules rules now ctx acc = acc @ map fst (filter (triggers now ctx) rules)"
  by (induction rules arbitrary: acc) (auto simp: triggers_def split: sum.splits)

lemma analyze_rules_triggered:
  "snd (analyze_rules rules now ctx) = map fst (filter (triggers now ctx) rules)"
  by (simp add: analyze_rules_def risk_of_count_def eval_rules_filter)

lemma analyze_rules_level:
  "fst (analyze_rules rules now ctx) =
     (let k = length (filter (triggers now ctx) rules)
      in if k = 0 then ''LOW'' else if k = 1 then ''MEDIUM''
         else if k = 2 then ''HIGH'' else ''CRITICAL'')"
proof -
  define k where "k = length (filter (triggers now ctx) rules)"
  have "k = 0 \<or> k = 1 \<or> k = 2 \<or> 3 \<le> k" by arith
  then show ?thesis
    unfolding analyze_rules_def risk_of_count_def eval_rules_filter Let_def
    by (auto simp: k_def [symmetric])
qed

text \<open>
  C1. For every context and clock reading, \<^verbatim>\<open>analyze_risk\<close> returns the names of the
  rules that trigger, in the order of the catalog, and the level that the number \<open>k\<close> of
  those rules selects: LOW for 0, MEDIUM for 1, HIGH for 2, CRITICAL for 3 or more.
\<close>

theorem analyze_risk_level_table:
  "snd (analyze_risk now ctx) = map fst (filter (triggers now ctx) risk_rules) \<and>
   fst (analyze_risk now ctx) =
     (let k = length (filter (triggers now ctx) risk_rules)
      in if k = 0 then ''LOW'' else if k = 1 then ''MEDIUM''
         else if k = 2 then ''HIGH'' else ''CRITICAL'')"
  unfolding analyze_risk_def
  using analyze_rules_triggered [of risk_rules now ctx] analyze_rules_level [of risk_rules now ctx]
  by simp

lemmas rule_defs =
  risk_rules_def high_amount_def suspicious_country_def weekend_activity_def
  high_risk_score_def multiple_attempts_def unusual_time_def is_unusual_time_def
  py_gt_def py_lower_def py_hour_def hour_def dict_get_def lower_def lower_char_def

lemmas input_defs =
  at_night_def at_noon_def after_noon_def noon_clock_def night_clock_def priya_context_def
  bob_context_def weekend_context_def form_context_def text_amount_context_def
  empty_database_def stale_observation_def fresh_observation_def timestamped_context_def
  late_evening_def late_clock_def

lemma triggered_at_noon_bob: "filter (triggers at_noon bob_context) risk_rules = []"
  by (simp add: triggers_def rule_defs input_defs)

lemma triggered_at_noon_weekend:
  "map fst (filter (triggers at_noon weekend_context) risk_rules) = [''weekend_activity'']"
  by (simp add: triggers_def rule_defs input_defs)

lemma triggered_at_noon_priya:
  "map fst (filter (triggers at_noon priya_context) risk_rules) =
     [''weekend_activity'', ''high_risk_score'']"
  by (simp add: triggers_def rule_defs input_defs)

lemma triggered_at_noon_form:
  "map fst (filter (triggers at_noon form_context) risk_rules) =
     [''high_amount'', ''suspicious_country'', ''weekend_activity'', ''high_risk_score'',
      ''multiple_attempts'']"
  by (simp add: triggers_def rule_defs input_defs)

theorem analyze_risk_level_table_witness:
  "analyze_risk at_noon bob_context = (''LOW'', []) \<and>
   analyze_risk at_noon weekend_context = (''MEDIUM'', [''weekend_activity'']) \<and>
   analyze_risk at_noon priya_context = (''HIGH'', [''weekend_activity'', ''high_risk_score'']) \<and>
   analyze_risk at_noon form_context =
     (''CRITICAL'', [''high_amount'', ''suspicious_country'', ''weekend_activity'',
                     ''high_risk_score'', ''multiple_attempts''])"
proof -
  have len: "\<And>c. length (filter (triggers at_noon c) risk_rules) =
                  length (map fst (filter (triggers at_noon c) risk_rules))"
    by simp
  have "analyze_risk at_noon bob_context = (''LOW'', [])"
    using analyze_risk_level_table [of at_noon bob_context]
    by (simp add: triggered_at_noon_bob prod_eq_iff)
  moreover have "analyze_risk at_noon weekend_context = (''MEDIUM'', [''weekend_activity''])"
    using analyze_risk_level_table [of at_noon weekend_context]
    unfolding len triggered_at_noon_weekend by (simp add: prod_eq_iff)
  moreover have "analyze_risk at_noon priya_context =
                   (''HIGH'', [''weekend_activity'', ''high_risk_score''])"
    using analyze_risk_level_table [of at_noon priya_context]
    unfolding len triggered_at_noon_priya by (simp add: prod_eq_iff)
  moreover have "analyze_risk at_noon form_context =
     (''CRITICAL'', [''high_amount'', ''suspicious_country'', ''weekend_activity'',
                     ''high_risk_score'', ''multiple_attempts''])"
    using analyze_risk_level_table [of at_noon form_context]
    unfolding len triggered_at_noon_form by (simp add: prod_eq_iff)
  ultimately show ?thesis by simp
qed

section \<open>Failure isolation\<close>

lemma raising_rule_not_triggered: "snd r now ctx = Inl e \<Longrightarrow> \<not> triggers now ctx r"
  by (simp add: triggers_def)

lemma filter_without_raising:
  assumes "\<And>r. r \<in> set rules \<Longrightarrow> fst r = name \<Longrightarrow> \<not> triggers now ctx r"
  shows "filter (triggers now ctx) (filter (\<lambda>r. fst r \<noteq> name) rules) =
         filter (triggers now ctx) rules"
  using assms by (induction rules) auto

lemma risk_rules_distinct: "distinct (map fst risk_rules)"
  by (simp add: risk_rules_def)

lemma same_name_same_rule:
  assumes "distinct (map fst rules)" and "(name, f) \<in> set rules" and "r \<in> set rules"
    and "fst r = name"
  shows "r = (name, f)"
  using assms by (metis eq_key_imp_eq_value prod.collapse)

text \<open>
  C4. When the predicate of a catalog rule raises for a context, the name of that rule
  is not in the returned list, and the call completes with the result of the remaining
  rules: the returned names are those of the other catalog rules that return a truthy
  value, in catalog order, and the level is the one their number \<open>k\<close> selects (LOW for
  0, MEDIUM for 1, HIGH for 2, CRITICAL for 3 or more).
\<close>

theorem analyze_risk_isolates_raising_rule:
  assumes "(name, rule) \<in> set risk_rules" and "rule now ctx = Inl e"
  shows "name \<notin> set (snd (analyze_risk now ctx)) \<and>
         snd (analyze_risk now ctx) =
           map fst (filter (triggers now ctx) (filter (\<lambda>r. fst r \<noteq> name) risk_rules)) \<and>
         fst (analyze_risk now ctx) =
           (let k = length (filter (triggers now ctx) (filter (\<lambda>r. fst r \<noteq> name) risk_rules))
            in if k = 0 then ''LOW'' else if k = 1 then ''MEDIUM''
               else if k = 2 then ''HIGH'' else ''CRITICAL'')"
proof -
  have quiet: "\<not> triggers now ctx r" if "r \<in> set risk_rules" and "fst r = name" for r
  proof -
    have "r = (name, rule)"
      using same_name_same_rule [OF risk_rules_distinct assms(1) that] .
    then show ?thesis using assms(2) by (simp add: triggers_def)
  qed
  have same: "filter (triggers now ctx) (filter (\<lambda>r. fst r \<noteq> name) risk_rules) =
              filter (triggers now ctx) risk_rules"
    using quiet by (rule filter_without_raising)
  have absent: "name \<notin> set (map fst (filter (triggers now ctx) risk_rules))"
    using quiet by auto
  have isolated: "name \<notin> set (snd (analyze_risk now ctx))"
    unfolding analyze_risk_def analyze_rules_triggered by (rule absent)
  have names: "snd (analyze_risk now ctx) =
      map fst (filter (triggers now ctx) (filter (\<lambda>r. fst r \<noteq> name) risk_rules))"
    unfolding same analyze_risk_def by (rule analyze_rules_triggered)
  have level: "fst (analyze_risk now ctx) =
      (let k = length (filter (triggers now ctx) (filter (\<lambda>r. fst r \<noteq> name) risk_rules))
       in if k = 0 then ''LOW'' else if k = 1 then ''MEDIUM''
          else if k = 2 then ''HIGH'' else ''CRITICAL'')"
    unfolding same analyze_risk_def by (rule analyze_rules_level)
  from isolated names level show ?thesis by blast
qed

lemma remaining_at_noon_text_amount:
  "map fst (filter (triggers at_noon text_amount_context)
              (filter (\<lambda>r. fst r \<noteq> ''high_amount'') risk_rules)) = [''weekend_activity'']"
  by (simp add: triggers_def rule_defs input_defs)

theorem analyze_risk_isolates_raising_rule_witness:
  "(''high_amount'', high_amount) \<in> set risk_rules \<and>
   high_amount at_noon text_amount_context = Inl TypeError \<and>
   ''high_amount'' \<notin> set (snd (analyze_risk at_noon text_amount_context)) \<and>
   analyze_risk at_noon text_amount_context = (''MEDIUM'', [''weekend_activity''])"
proof -
  have member: "(''high_amount'', high_amount) \<in> set risk_rules"
    by (simp add: risk_rules_def)
  have raises: "high_amount at_noon text_amount_context = Inl TypeError"
    by (simp add: rule_defs input_defs)
  have count: "length (filter (triggers at_noon text_amount_context)
                 (filter (\<lambda>r. fst r \<noteq> ''high_amount'') risk_rules)) = 1"
    using arg_cong [OF remaining_at_noon_text_amount, of length] by simp
  have "analyze_risk at_noon text_amount_context = (''MEDIUM'', [''weekend_activity''])"
    using analyze_risk_isolates_raising_rule [OF member raises]
    unfolding remaining_at_noon_text_amount count
    by (simp add: prod_eq_iff)
  moreover have "''high_amount'' \<notin> set (snd (analyze_risk at_noon text_amount_context))"
    using analyze_risk_isolates_raising_rule [OF member raises] by blast
  ultimately show ?thesis using member raises by blast
qed

section \<open>Dependence on the clock\<close>

lemma rules_agree:
  assumes "map_of ctx ''timestamp'' \<noteq> None \<or> hour now1 = hour now2"
    and "r \<in> set risk_rules"
  shows "snd r now1 ctx = snd r now2 ctx"
proof -
  have "unusual_time now1 ctx = unusual_time now2 ctx"
    using assms(1) by (auto simp: unusual_time_def dict_get_def py_hour_def split: option.splits)
  then show ?thesis
    using assms(2)
    by (auto simp: risk_rules_def high_amount_def suspicious_country_def weekend_activity_def
        high_risk_score_def multiple_attempts_def)
qed

lemma eval_rules_agree:
  assumes "\<And>r. r \<in> set rules \<Longrightarrow> snd r now1 ctx = snd r now2 ctx"
  shows "eval_rules rules now1 ctx acc = eval_rules rules now2 ctx acc"
proof -
  have "filter (triggers now1 ctx) rules = filter (triggers now2 ctx) rules"
    using assms by (intro filter_cong) (auto simp: triggers_def)
  then show ?thesis by (simp add: eval_rules_filter)
qed

text \<open>
  C8, as the code has it. The last rule reads the clock when the context has no
  \<^verbatim>\<open>timestamp\<close> key. Two calls with the same context return the same pair when the
  context has a \<^verbatim>\<open>timestamp\<close> key, or when both calls read the same clock hour.
\<close>

theorem analyze_risk_same_result:
  assumes "map_of ctx ''timestamp'' \<noteq> None \<or> hour now1 = hour now2"
  shows "analyze_risk now1 ctx = analyze_risk now2 ctx"
  unfolding analyze_risk_def analyze_rules_def
  using eval_rules_agree [of risk_rules now1 ctx now2 "[]"] rules_agree [OF assms]
  by simp

theorem analyze_risk_same_result_witness:
  "map_of timestamped_context ''timestamp'' \<noteq> None \<and>
   analyze_risk at_night timestamped_context = analyze_risk at_noon timestamped_context \<and>
   hour at_noon = hour after_noon \<and>
   analyze_risk at_noon bob_context = analyze_risk after_noon bob_context"
proof -
  have present: "map_of timestamped_context ''timestamp'' \<noteq> None"
    by (simp add: input_defs)
  have same_hour: "hour at_noon = hour after_noon"
    by (simp add: hour_def input_defs)
  show ?thesis
    using analyze_risk_same_result [of timestamped_context at_night at_noon]
      analyze_risk_same_result [of bob_context at_noon after_noon] present same_hour
    by simp
qed

text \<open>
  C8 as stated fails: the context of the Bob scenario has no \<^verbatim>\<open>timestamp\<close> key, and the
  classifier answers MEDIUM at 03:00 and LOW at 12:00.
\<close>

theorem analyze_risk_clock_counterexample:
  "analyze_risk at_night bob_context = (''MEDIUM'', [''unusual_time'']) \<and>
   analyze_risk at_noon bob_context = (''LOW'', [])"
  by (simp add: analyze_risk_def analyze_rules_def risk_of_count_def rule_defs input_defs)

section \<open>The eviction sweep\<close>

text \<open>
  C7. One run of \<^verbatim>\<open>_cleanup_old_observations\<close> keeps, in their order, exactly the cached
  observations that are at most 7 days (604800000000 microseconds) older than the
  current time, and leaves the database, the statistics, the thresholds and the
  monitoring flag as they were.
\<close>

theorem cleanup_keeps_recent_only:
  "observed_actions (cleanup_old_observations now s) =
     filter (\<lambda>obs. micros now - micros (timestamp obs) \<le> 604800000000) (observed_actions s) \<and>
   db_manager (cleanup_old_observations now s) = db_manager s \<and>
   stats (cleanup_old_observations now s) = stats s \<and>
   alert_thresholds (cleanup_old_observations now s) = alert_thresholds s \<and>
   is_monitoring (cleanup_old_observations now s) = is_monitoring s"
proof -
  have "datetime_ge (timestamp obs) (minus_days now 7) =
        (micros now - micros (timestamp obs) \<le> 604800000000)" for obs :: observation
    by (auto simp: datetime_ge_def minus_days_def)
  then show ?thesis
    by (simp add: cleanup_old_observations_def)
qed

theorem cleanup_keeps_recent_only_witness:
  "observed_actions
     (cleanup_old_observations after_noon
        ((init_agent empty_database)\<lparr>observed_actions := [stale_observation, fresh_observation]\<rparr>))
     = [fresh_observation]"
  using cleanup_keeps_recent_only [of after_noon
      "(init_agent empty_database)\<lparr>observed_actions := [stale_observation, fresh_observation]\<rparr>"]
  by (simp add: input_defs)

section \<open>One call of watch_action\<close>

lemma should_alert_always: "should_alert thresholds obs"
  by (simp add: should_alert_def Let_def)

lemma watch_action_returns:
  assumes "json_dumps ctx = Inr blob"
  shows "fst (watch_action clk usr act ctx s) = Inr (observed clk usr act ctx)"
  using assms
  by (simp add: watch_action_def should_alert_always save_observation_def observed_def
      Let_def split: prod.splits)

lemma watch_action_raises:
  assumes "json_dumps ctx = Inl e"
  shows "watch_action clk usr act ctx s =
           (Inl e, s\<lparr>db_manager := (db_manager s)\<lparr>alerts := alerts (db_manager s) @
                                       [alert_of clk usr act ctx]\<rparr>\<rparr>)"
  using assms
  by (simp add: watch_action_def should_alert_always save_observation_def create_alert_def
      alert_of_def Let_def split: prod.splits)

lemma watch_action_alerts:
  "alerts (db_manager (snd (watch_action clk usr act ctx s))) =
     alerts (db_manager s) @ [alert_of clk usr act ctx]"
  by (cases "json_dumps ctx")
     (simp_all add: watch_action_def should_alert_always save_observation_def create_alert_def
        alert_of_def Let_def split: prod.splits)

lemma watch_action_observations:
  assumes "json_dumps ctx = Inr blob"
  shows "observations (db_manager (snd (watch_action clk usr act ctx s))) =
           observations (db_manager s) @ [row_of clk usr act ctx blob]"
  using assms
  by (simp add: watch_action_def should_alert_always save_observation_def create_alert_def
      row_of_def Let_def split: prod.splits)

lemma watch_action_cache:
  assumes "json_dumps ctx = Inr blob"
  shows "observed_actions (snd (watch_action clk usr act ctx s)) =
           (if length (observed_actions s) \<ge> 1000
            then tl (observed_actions s @ [observed clk usr act ctx])
            else observed_actions s @ [observed clk usr act ctx])"
  using assms
  by (simp add: watch_action_def should_alert_always save_observation_def observed_def
      Let_def split: prod.splits)

lemma watch_action_total_observations:
  assumes "json_dumps ctx = Inr blob"
  shows "stats (snd (watch_action clk usr act ctx s)) ''total_observations'' =
           stats s ''total_observations'' + 1"
  using assms
  by (simp add: watch_action_def should_alert_always save_observation_def
      Let_def split: prod.splits)

section \<open>The retention cache over a run of calls\<close>

lemma watch_action_cache_step:
  assumes "length (observed_actions s) \<le> 1000"
  shows "observed_actions (snd (watch_action clk usr act ctx s)) =
           drop (length (observed_actions s @ returned [fst (watch_action clk usr act ctx s)]) - 1000)
             (observed_actions s @ returned [fst (watch_action clk usr act ctx s)])"
proof (cases "json_dumps ctx")
  case (Inl e)
  then show ?thesis using assms by (simp add: watch_action_raises)
next
  case (Inr blob)
  show ?thesis
  proof (cases "length (observed_actions s) = 1000")
    case True
    then obtain x xs where "observed_actions s = x # xs"
      by (cases "observed_actions s") auto
    with True show ?thesis
      by (simp add: watch_action_cache [OF Inr] watch_action_returns [OF Inr])
  next
    case False
    with assms show ?thesis
      by (simp add: watch_action_cache [OF Inr] watch_action_returns [OF Inr])
  qed
qed

lemma drop_window:
  "drop (length (drop (length xs - n) xs @ b) - n) (drop (length xs - n) xs @ b) =
   drop (length (xs @ b) - n) (xs @ b)"
proof (cases "length xs \<le> n")
  case True
  then show ?thesis by simp
next
  case False
  define k where "k = length xs - n"
  have kn: "length xs = k + n" using False by (simp add: k_def)
  have "drop (length (xs @ b) - n) (xs @ b) = drop (length b) (drop k (xs @ b))"
    by (simp add: kn add.commute)
  also have "drop k (xs @ b) = drop k xs @ b"
    by (simp add: kn)
  finally show ?thesis
    by (simp add: kn k_def [symmetric])
qed

lemma watch_many_cache:
  assumes "length (observed_actions s) \<le> 1000"
  shows "observed_actions (snd (watch_many calls s)) =
           drop (length (observed_actions s @ returned (fst (watch_many calls s))) - 1000)
             (observed_actions s @ returned (fst (watch_many calls s)))"
  using assms
proof (induction calls arbitrary: s)
  case Nil
  then show ?case by simp
next
  case (Cons c calls)
  obtain clk usr act ctx where c: "c = (clk, usr, act, ctx)" by (cases c) auto
  obtain r s1 where step: "watch_action clk usr act ctx s = (r, s1)" by (cases "watch_action clk usr act ctx s") auto
  obtain rs s2 where run: "watch_many calls s1 = (rs, s2)" by (cases "watch_many calls s1") auto
  have c1: "observed_actions s1 = drop (length (observed_actions s @ returned [r]) - 1000) (observed_actions s @ returned [r])"
    using watch_action_cache_step [OF Cons.prems, of clk usr act ctx] step by simp
  then have le: "length (observed_actions s1) \<le> 1000" by simp
  have c2: "observed_actions s2 = drop (length (observed_actions s1 @ returned rs) - 1000) (observed_actions s1 @ returned rs)"
    using Cons.IH [OF le] run by simp
  have ret: "returned (r # rs) = returned [r] @ returned rs" by (cases r) auto
  show ?case
    using drop_window [of "observed_actions s @ returned [r]" 1000 "returned rs"]
    by (simp add: c step run c1 c2 ret del: returned.simps)
qed

lemma returned_all:
  assumes "list_all (\<lambda>(clk, usr, act, ctx). \<not> isl (json_dumps ctx)) calls"
  shows "returned (fst (watch_many calls s)) = map (\<lambda>(clk, usr, act, ctx). observed clk usr act ctx) calls"
  using assms
proof (induction calls arbitrary: s)
  case Nil
  then show ?case by simp
next
  case (Cons c calls)
  obtain clk usr act ctx where c: "c = (clk, usr, act, ctx)" by (cases c) auto
  with Cons.prems obtain blob where blob: "json_dumps ctx = Inr blob" by (cases "json_dumps ctx") auto
  from Cons.prems have rest: "list_all (\<lambda>(clk, usr, act, ctx). \<not> isl (json_dumps ctx)) calls" by simp
  obtain r s1 where step: "watch_action clk usr act ctx s = (r, s1)"
    by (cases "watch_action clk usr act ctx s") auto
  obtain rs s2 where run: "watch_many calls s1 = (rs, s2)"
    by (cases "watch_many calls s1") auto
  have "r = Inr (observed clk usr act ctx)"
    using watch_action_returns [OF blob, of clk usr act s] step by simp
  moreover have "returned rs = map (\<lambda>(clk, usr, act, ctx). observed clk usr act ctx) calls"
    using Cons.IH [OF rest, of s1] run by simp
  ultimately show ?case
    by (simp add: c step run)
qed

text \<open>
  C6. After any sequence of calls on a new agent the cache holds at most 1000
  observations: it is the list of the observations returned so far, in call order,
  without its oldest entries beyond the last 1000. When 1001 observations were returned,
  the cache is that list without its first entry.
\<close>

theorem retention_cache_bounded_fifo:
  "length (observed_actions (snd (watch_many calls (init_agent db)))) \<le> 1000 \<and>
   observed_actions (snd (watch_many calls (init_agent db))) =
     drop (length (returned (fst (watch_many calls (init_agent db)))) - 1000)
       (returned (fst (watch_many calls (init_agent db)))) \<and>
   (length (returned (fst (watch_many calls (init_agent db)))) = 1001 \<longrightarrow>
      observed_actions (snd (watch_many calls (init_agent db))) =
        tl (returned (fst (watch_many calls (init_agent db)))) \<and>
      length (observed_actions (snd (watch_many calls (init_agent db)))) = 1000)"
proof -
  have window: "observed_actions (snd (watch_many calls (init_agent db))) =
     drop (length (returned (fst (watch_many calls (init_agent db)))) - 1000)
       (returned (fst (watch_many calls (init_agent db))))"
    using watch_many_cache [of "init_agent db" calls] by (simp add: init_agent_def)
  have bounded: "length (observed_actions (snd (watch_many calls (init_agent db)))) \<le> 1000"
    by (subst window) simp
  have "observed_actions (snd (watch_many calls (init_agent db))) =
          tl (returned (fst (watch_many calls (init_agent db)))) \<and>
        length (observed_actions (snd (watch_many calls (init_agent db)))) = 1000"
    if "length (returned (fst (watch_many calls (init_agent db)))) = 1001"
    using window that by (simp add: drop_Suc)
  with window bounded show ?thesis by blast
qed

lemma thousand_and_one_serialise:
  "list_all (\<lambda>(clk, usr, act, ctx). \<not> isl (json_dumps ctx)) thousand_and_one"
  by (simp add: thousand_and_one_def tick_def bob_context_def list_all_iff)

theorem retention_cache_bounded_fifo_witness:
  "length (returned (fst (watch_many thousand_and_one (init_agent empty_database)))) = 1001 \<and>
   length (observed_actions (snd (watch_many thousand_and_one (init_agent empty_database)))) = 1000 \<and>
   map timestamp (observed_actions (snd (watch_many thousand_and_one (init_agent empty_database)))) =
     map (\<lambda>i. Datetime (63840139200000000 + int i)) [1..<1001]"
proof -
  have all: "returned (fst (watch_many thousand_and_one (init_agent empty_database))) =
               map (\<lambda>(clk, usr, act, ctx). observed clk usr act ctx) thousand_and_one"
    using thousand_and_one_serialise by (rule returned_all)
  have len: "length (returned (fst (watch_many thousand_and_one (init_agent empty_database)))) = 1001"
    by (subst all) (simp add: thousand_and_one_def)
  have cache: "observed_actions (snd (watch_many thousand_and_one (init_agent empty_database))) =
                 tl (returned (fst (watch_many thousand_and_one (init_agent empty_database))))"
    using retention_cache_bounded_fifo [of thousand_and_one empty_database] len by blast
  have stamps: "map timestamp (map (\<lambda>(clk, usr, act, ctx). observed clk usr act ctx) thousand_and_one) =
                  map (\<lambda>i. Datetime (63840139200000000 + int i)) [0..<1001]"
    by (simp add: thousand_and_one_def tick_def observed_def)
  have "map timestamp (tl (returned (fst (watch_many thousand_and_one (init_agent empty_database))))) =
          tl (map (\<lambda>i. Datetime (63840139200000000 + int i)) [0..<1001])"
    by (simp only: all map_tl stamps)
  also have "\<dots> = map (\<lambda>i. Datetime (63840139200000000 + int i)) (tl [0..<1001])"
    by (simp only: map_tl)
  also have "tl [0..<1001] = [1..<1001]"
    by (simp add: tl_upt)
  finally have "map timestamp (observed_actions (snd (watch_many thousand_and_one (init_agent empty_database)))) =
     map (\<lambda>i. Datetime (63840139200000000 + int i)) [1..<1001]"
    by (simp only: cache)
  moreover have "length (observed_actions (snd (watch_many thousand_and_one (init_agent empty_database)))) = 1000"
    using len by (simp add: cache)
  ultimately show ?thesis using len by simp
qed

section \<open>The alert decision\<close>

lemma count_selects_low:
  "filter (triggers now ctx) risk_rules = [] \<Longrightarrow> analyze_risk now ctx = (''LOW'', [])"
  by (simp add: analyze_risk_def analyze_rules_def risk_of_count_def eval_rules_filter)

lemma bob_serialises: "json_dumps bob_context = Inr [(''amount'', JInt 0)]"
  by (simp add: bob_context_def)

lemma analyze_noon_bob: "analyze_risk at_noon bob_context = (''LOW'', [])"
  using triggered_at_noon_bob by (rule count_selects_low)

lemma last_kept: "last (if 1000 \<le> length xs then tl (xs @ [x]) else xs @ [x]) = x"
  by (cases xs) auto

lemma noon_reads:
  "now_rules noon_clock = at_noon" "now_observation noon_clock = at_noon"
  "now_alert noon_clock = after_noon"
  by (simp_all add: noon_clock_def)

text \<open>
  C3, as the code has it. \<^verbatim>\<open>should_alert\<close> answers \<^verbatim>\<open>True\<close> at every level, so for a context
  with no triggered rule (and values that \<^verbatim>\<open>json.dumps\<close> accepts) the call returns an
  observation with level LOW and \<^verbatim>\<open>alert_triggered\<close> set, and one alert of severity LOW is
  inserted, whatever the thresholds.
\<close>

theorem watch_action_no_trigger_alerts:
  assumes "filter (triggers (now_rules clk) ctx) risk_rules = []"
    and "json_dumps ctx = Inr blob"
  shows "fst (watch_action clk usr act ctx s) =
           Inr \<lparr>timestamp = now_observation clk, user = usr, action = act, obs_context = ctx,
                risk_level = ''LOW'', alert_triggered = True, processed = False\<rparr> \<and>
         alerts (db_manager (snd (watch_action clk usr act ctx s))) =
           alerts (db_manager s) @
             [\<lparr>a_timestamp = now_alert clk, a_user = usr, a_alert_type = act,
               a_message = ''Risk detected for user '' @ usr @ '': '',
               a_severity = ''LOW'', a_acknowledged = False\<rparr>]"
  using watch_action_returns [OF assms(2), of clk usr act s]
    watch_action_alerts [of clk usr act ctx s] count_selects_low [OF assms(1)]
  by (simp add: observed_def alert_of_def)

theorem watch_action_no_trigger_alerts_witness:
  "filter (triggers (now_rules noon_clock) bob_context) risk_rules = [] \<and>
   fst (watch_action noon_clock ''Bob'' ''login_attempt'' bob_context
          ((init_agent empty_database)\<lparr>alert_thresholds := [(''LOW'', 1000)]\<rparr>)) =
     Inr \<lparr>timestamp = now_observation noon_clock, user = ''Bob'', action = ''login_attempt'',
          obs_context = bob_context, risk_level = ''LOW'', alert_triggered = True,
          processed = False\<rparr>"
proof -
  have none: "filter (triggers (now_rules noon_clock) bob_context) risk_rules = []"
    using triggered_at_noon_bob by (simp add: noon_clock_def)
  show ?thesis
    using watch_action_no_trigger_alerts [OF none bob_serialises, of "''Bob''" "''login_attempt''"
        "(init_agent empty_database)\<lparr>alert_thresholds := [(''LOW'', 1000)]\<rparr>"] none
    by blast
qed

text \<open>
  C3 as stated fails: in the scenario \<^verbatim>\<open>watch("Bob", "login_attempt", {amount: 0})\<close> at
  noon, on a new agent with the default thresholds, no rule triggers, and the returned
  observation has \<^verbatim>\<open>alert_triggered\<close> set and an alert row is written.
\<close>

theorem watch_action_low_alert_counterexample:
  "snd (analyze_risk (now_rules noon_clock) bob_context) = [] \<and>
   alert_thresholds (init_agent empty_database) = default_thresholds \<and>
   fst (watch_action noon_clock ''Bob'' ''login_attempt'' bob_context (init_agent empty_database)) =
     Inr \<lparr>timestamp = at_noon, user = ''Bob'', action = ''login_attempt'',
          obs_context = bob_context, risk_level = ''LOW'', alert_triggered = True,
          processed = False\<rparr> \<and>
   alerts (db_manager (snd (watch_action noon_clock ''Bob'' ''login_attempt'' bob_context
                              (init_agent empty_database)))) =
     [\<lparr>a_timestamp = after_noon, a_user = ''Bob'', a_alert_type = ''login_attempt'',
       a_message = ''Risk detected for user Bob: '', a_severity = ''LOW'',
       a_acknowledged = False\<rparr>]"
proof -
  have "snd (analyze_risk (now_rules noon_clock) bob_context) = []"
    by (simp add: noon_reads analyze_noon_bob)
  moreover have "alert_thresholds (init_agent empty_database) = default_thresholds"
    by (simp add: init_agent_def)
  moreover have "fst (watch_action noon_clock ''Bob'' ''login_attempt'' bob_context (init_agent empty_database)) =
     Inr \<lparr>timestamp = at_noon, user = ''Bob'', action = ''login_attempt'',
          obs_context = bob_context, risk_level = ''LOW'', alert_triggered = True,
          processed = False\<rparr>"
    by (simp add: watch_action_returns [OF bob_serialises] observed_def noon_reads analyze_noon_bob)
  moreover have "alerts (db_manager (snd (watch_action noon_clock ''Bob'' ''login_attempt'' bob_context
                              (init_agent empty_database)))) =
     [\<lparr>a_timestamp = after_noon, a_user = ''Bob'', a_alert_type = ''login_attempt'',
       a_message = ''Risk detected for user Bob: '', a_severity = ''LOW'',
       a_acknowledged = False\<rparr>]"
    by (simp add: watch_action_alerts alert_of_def noon_reads analyze_noon_bob init_agent_def
        empty_database_def)
  ultimately show ?thesis by blast
qed

section \<open>Empty actor and action strings\<close>

text \<open>
  C5, as the code has it. \<^verbatim>\<open>watch_action\<close> has no validation step and no
  \<^verbatim>\<open>ValidationError\<close>: a call whose actor or action string is empty is processed like
  any other. With a context that \<^verbatim>\<open>json.dumps\<close> accepts it returns an observation that
  carries the two strings as given, inserts an alert row and an observation row,
  appends the observation to the cache and counts it in the statistics.
\<close>

theorem watch_action_accepts_empty_names:
  assumes "usr = [] \<or> act = []" and "json_dumps ctx = Inr blob"
  shows "fst (watch_action clk usr act ctx s) =
           Inr \<lparr>timestamp = now_observation clk, user = usr, action = act, obs_context = ctx,
                risk_level = fst (analyze_risk (now_rules clk) ctx), alert_triggered = True,
                processed = False\<rparr> \<and>
         observations (db_manager (snd (watch_action clk usr act ctx s))) =
           observations (db_manager s) @
             [\<lparr>o_timestamp = now_observation clk, o_user = usr, o_action = act,
               o_context = blob, o_risk_level = fst (analyze_risk (now_rules clk) ctx),
               o_alert_triggered = True, o_processed = False\<rparr>] \<and>
         length (alerts (db_manager (snd (watch_action clk usr act ctx s)))) =
           length (alerts (db_manager s)) + 1 \<and>
         last (observed_actions (snd (watch_action clk usr act ctx s))) =
           \<lparr>timestamp = now_observation clk, user = usr, action = act, obs_context = ctx,
            risk_level = fst (analyze_risk (now_rules clk) ctx), alert_triggered = True,
            processed = False\<rparr> \<and>
         stats (snd (watch_action clk usr act ctx s)) ''total_observations'' =
           stats s ''total_observations'' + 1"
proof -
  have "last (observed_actions (snd (watch_action clk usr act ctx s))) = observed clk usr act ctx"
    by (simp only: watch_action_cache [OF assms(2)] last_kept)
  then show ?thesis
    using watch_action_returns [OF assms(2), of clk usr act s]
      watch_action_observations [OF assms(2), of clk usr act s]
      watch_action_alerts [of clk usr act ctx s]
      watch_action_total_observations [OF assms(2), of clk usr act s]
    by (simp add: observed_def row_of_def)
qed

theorem watch_action_accepts_empty_names_witness:
  "fst (watch_action noon_clock [] [] bob_context (init_agent empty_database)) =
     Inr \<lparr>timestamp = now_observation noon_clock, user = [], action = [],
          obs_context = bob_context,
          risk_level = fst (analyze_risk (now_rules noon_clock) bob_context),
          alert_triggered = True, processed = False\<rparr> \<and>
   stats (snd (watch_action noon_clock [] [] bob_context (init_agent empty_database)))
     ''total_observations'' = stats (init_agent empty_database) ''total_observations'' + 1"
  using watch_action_accepts_empty_names [OF _ bob_serialises, of "[]" "[]" noon_clock
      "init_agent empty_database"]
  by simp

text \<open>
  C5 as stated fails: the call with both strings empty returns an observation, and the
  database, the cache and the statistics of the new agent have all changed.
\<close>

theorem watch_action_empty_names_counterexample:
  "fst (watch_action noon_clock [] [] bob_context (init_agent empty_database)) =
     Inr \<lparr>timestamp = at_noon, user = [], action = [], obs_context = bob_context,
          risk_level = ''LOW'', alert_triggered = True, processed = False\<rparr> \<and>
   observations (db_manager (snd (watch_action noon_clock [] [] bob_context
                                    (init_agent empty_database)))) =
     [\<lparr>o_timestamp = at_noon, o_user = [], o_action = [],
       o_context = [(''amount'', JInt 0)], o_risk_level = ''LOW'',
       o_alert_triggered = True, o_processed = False\<rparr>] \<and>
   length (alerts (db_manager (snd (watch_action noon_clock [] [] bob_context
                                      (init_agent empty_database))))) = 1 \<and>
   length (observed_actions (snd (watch_action noon_clock [] [] bob_context
                                    (init_agent empty_database)))) = 1 \<and>
   stats (snd (watch_action noon_clock [] [] bob_context (init_agent empty_database)))
     ''total_observations'' = 1"
proof -
  have "fst (watch_action noon_clock [] [] bob_context (init_agent empty_database)) =
     Inr \<lparr>timestamp = at_noon, user = [], action = [], obs_context = bob_context,
          risk_level = ''LOW'', alert_triggered = True, processed = False\<rparr>"
    by (simp add: watch_action_returns [OF bob_serialises] observed_def noon_reads analyze_noon_bob)
  moreover have "observations (db_manager (snd (watch_action noon_clock [] [] bob_context
                                    (init_agent empty_database)))) =
     [\<lparr>o_timestamp = at_noon, o_user = [], o_action = [],
       o_context = [(''amount'', JInt 0)], o_risk_level = ''LOW'',
       o_alert_triggered = True, o_processed = False\<rparr>]"
    by (simp add: watch_action_observations [OF bob_serialises] row_of_def noon_reads
        analyze_noon_bob init_agent_def empty_database_def)
  moreover have "length (alerts (db_manager (snd (watch_action noon_clock [] [] bob_context
                                      (init_agent empty_database))))) = 1"
    by (simp add: watch_action_alerts init_agent_def empty_database_def)
  moreover have "length (observed_actions (snd (watch_action noon_clock [] [] bob_context
                                    (init_agent empty_database)))) = 1"
    by (simp add: watch_action_cache [OF bob_serialises] init_agent_def)
  moreover have "stats (snd (watch_action noon_clock [] [] bob_context (init_agent empty_database)))
     ''total_observations'' = 1"
    by (simp add: watch_action_total_observations [OF bob_serialises] init_agent_def)
  ultimately show ?thesis by blast
qed

section \<open>The Priya scenario\<close>

lemma priya_serialises:
  "json_dumps priya_context =
     Inr [(''amount'', JInt 9500), (''country'', JStr ''india''), (''is_weekend'', JBool True),
          (''risk_score'', JFloat (Finite (8286623314361713 / 9007199254740992))),
          (''attempt_count'', JInt 1)]"
  by (simp add: priya_context_def)

lemma analyze_daytime_priya:
  assumes "7 \<le> hour now" and "hour now \<le> 22"
  shows "analyze_risk now priya_context = (''HIGH'', [''weekend_activity'', ''high_risk_score''])"
  using assms
  by (simp add: analyze_risk_def analyze_rules_def risk_of_count_def risk_rules_def
      high_amount_def suspicious_country_def weekend_activity_def high_risk_score_def
      multiple_attempts_def unusual_time_def is_unusual_time_def py_gt_def py_lower_def
      py_hour_def dict_get_def lower_def lower_char_def priya_context_def)

lemma analyze_nighttime_priya:
  assumes "23 \<le> hour now \<or> hour now \<le> 6"
  shows "analyze_risk now priya_context =
           (''CRITICAL'', [''weekend_activity'', ''high_risk_score'', ''unusual_time''])"
  using assms
  by (simp add: analyze_risk_def analyze_rules_def risk_of_count_def risk_rules_def
      high_amount_def suspicious_country_def weekend_activity_def high_risk_score_def
      multiple_attempts_def unusual_time_def is_unusual_time_def py_gt_def py_lower_def
      py_hour_def dict_get_def lower_def lower_char_def priya_context_def)

lemma night_hour: "hour at_night = 3"
  by (simp add: hour_def at_night_def)

lemma analyze_night_priya:
  "analyze_risk at_night priya_context =
     (''CRITICAL'', [''weekend_activity'', ''high_risk_score'', ''unusual_time''])"
  by (rule analyze_nighttime_priya) (simp add: night_hour)

lemma night_reads:
  "now_rules night_clock = at_night" "now_observation night_clock = at_night"
  "now_alert night_clock = at_night"
  by (simp_all add: night_clock_def)

lemma late_reads:
  "now_rules late_clock = late_evening" "now_observation late_clock = late_evening"
  "now_alert late_clock = late_evening"
  by (simp_all add: late_clock_def)

lemma noon_hour: "hour at_noon = 12"
  by (simp add: hour_def at_noon_def)

lemma late_hour: "hour late_evening = 23"
  by (simp add: hour_def late_evening_def)

text \<open>
  C10, as the code has it. The context of the scenario has no \<^verbatim>\<open>timestamp\<close> key, so the
  rule \<^verbatim>\<open>unusual_time\<close> looks at the clock. When the call is made at a local hour from 7
  to 22, exactly \<^verbatim>\<open>weekend_activity\<close> and \<^verbatim>\<open>high_risk_score\<close> trigger, the returned
  observation has level HIGH and \<^verbatim>\<open>alert_triggered\<close> set, and exactly one alert row is
  inserted, of severity HIGH, whose message names the two rules. When the call is made
  at hour 23 or at an hour from 0 to 6, \<^verbatim>\<open>unusual_time\<close> triggers as a third rule: the
  observation has level CRITICAL and the one alert row has severity CRITICAL.
\<close>

theorem watch_action_priya_by_hour:
  "(7 \<le> hour (now_rules clk) \<and> hour (now_rules clk) \<le> 22 \<longrightarrow>
      analyze_risk (now_rules clk) priya_context =
        (''HIGH'', [''weekend_activity'', ''high_risk_score'']) \<and>
      fst (watch_action clk ''Priya'' ''flagged_transaction'' priya_context s) =
        Inr \<lparr>timestamp = now_observation clk, user = ''Priya'',
             action = ''flagged_transaction'', obs_context = priya_context,
             risk_level = ''HIGH'', alert_triggered = True, processed = False\<rparr> \<and>
      alerts (db_manager (snd (watch_action clk ''Priya'' ''flagged_transaction''
                                 priya_context s))) =
        alerts (db_manager s) @
          [\<lparr>a_timestamp = now_alert clk, a_user = ''Priya'',
            a_alert_type = ''flagged_transaction'',
            a_message = ''Risk detected for user Priya: weekend_activity, high_risk_score'',
            a_severity = ''HIGH'', a_acknowledged = False\<rparr>]) \<and>
   (23 \<le> hour (now_rules clk) \<or> hour (now_rules clk) \<le> 6 \<longrightarrow>
      analyze_risk (now_rules clk) priya_context =
        (''CRITICAL'', [''weekend_activity'', ''high_risk_score'', ''unusual_time'']) \<and>
      fst (watch_action clk ''Priya'' ''flagged_transaction'' priya_context s) =
        Inr \<lparr>timestamp = now_observation clk, user = ''Priya'',
             action = ''flagged_transaction'', obs_context = priya_context,
             risk_level = ''CRITICAL'', alert_triggered = True, processed = False\<rparr> \<and>
      alerts (db_manager (snd (watch_action clk ''Priya'' ''flagged_transaction''
                                 priya_context s))) =
        alerts (db_manager s) @
          [\<lparr>a_timestamp = now_alert clk, a_user = ''Priya'',
            a_alert_type = ''flagged_transaction'',
            a_message =
              ''Risk detected for user Priya: weekend_activity, high_risk_score, unusual_time'',
            a_severity = ''CRITICAL'', a_acknowledged = False\<rparr>])"
proof (intro conjI impI)
  assume day: "7 \<le> hour (now_rules clk) \<and> hour (now_rules clk) \<le> 22"
  then have level: "analyze_risk (now_rules clk) priya_context =
      (''HIGH'', [''weekend_activity'', ''high_risk_score''])"
    by (simp add: analyze_daytime_priya)
  show "analyze_risk (now_rules clk) priya_context =
      (''HIGH'', [''weekend_activity'', ''high_risk_score''])"
    by (rule level)
  show "fst (watch_action clk ''Priya'' ''flagged_transaction'' priya_context s) =
        Inr \<lparr>timestamp = now_observation clk, user = ''Priya'',
             action = ''flagged_transaction'', obs_context = priya_context,
             risk_level = ''HIGH'', alert_triggered = True, processed = False\<rparr>"
    by (simp add: watch_action_returns [OF priya_serialises] observed_def level)
  show "alerts (db_manager (snd (watch_action clk ''Priya'' ''flagged_transaction''
                                 priya_context s))) =
        alerts (db_manager s) @
          [\<lparr>a_timestamp = now_alert clk, a_user = ''Priya'',
            a_alert_type = ''flagged_transaction'',
            a_message = ''Risk detected for user Priya: weekend_activity, high_risk_score'',
            a_severity = ''HIGH'', a_acknowledged = False\<rparr>]"
    by (simp add: watch_action_alerts alert_of_def level)
next
  assume night: "23 \<le> hour (now_rules clk) \<or> hour (now_rules clk) \<le> 6"
  then have level: "analyze_risk (now_rules clk) priya_context =
      (''CRITICAL'', [''weekend_activity'', ''high_risk_score'', ''unusual_time''])"
    by (rule analyze_nighttime_priya)
  show "analyze_risk (now_rules clk) priya_context =
      (''CRITICAL'', [''weekend_activity'', ''high_risk_score'', ''unusual_time''])"
    by (rule level)
  show "fst (watch_action clk ''Priya'' ''flagged_transaction'' priya_context s) =
        Inr \<lparr>timestamp = now_observation clk, user = ''Priya'',
             action = ''flagged_transaction'', obs_context = priya_context,
             risk_level = ''CRITICAL'', alert_triggered = True, processed = False\<rparr>"
    by (simp add: watch_action_returns [OF priya_serialises] observed_def level)
  show "alerts (db_manager (snd (watch_action clk ''Priya'' ''flagged_transaction''
                                 priya_context s))) =
        alerts (db_manager s) @
          [\<lparr>a_timestamp = now_alert clk, a_user = ''Priya'',
            a_alert_type = ''flagged_transaction'',
            a_message =
              ''Risk detected for user Priya: weekend_activity, high_risk_score, unusual_time'',
            a_severity = ''CRITICAL'', a_acknowledged = False\<rparr>]"
    by (simp add: watch_action_alerts alert_of_def level)
qed

theorem watch_action_priya_by_hour_witness:
  "7 \<le> hour (now_rules noon_clock) \<and> hour (now_rules noon_clock) \<le> 22 \<and>
   analyze_risk (now_rules noon_clock) priya_context =
     (''HIGH'', [''weekend_activity'', ''high_risk_score'']) \<and>
   map a_severity (alerts (db_manager (snd (watch_action noon_clock ''Priya''
       ''flagged_transaction'' priya_context (init_agent empty_database))))) = [''HIGH''] \<and>
   23 \<le> hour (now_rules late_clock) \<and>
   analyze_risk (now_rules late_clock) priya_context =
     (''CRITICAL'', [''weekend_activity'', ''high_risk_score'', ''unusual_time'']) \<and>
   map a_severity (alerts (db_manager (snd (watch_action late_clock ''Priya''
       ''flagged_transaction'' priya_context (init_agent empty_database))))) = [''CRITICAL''] \<and>
   hour (now_rules night_clock) \<le> 6 \<and>
   map risk_level (returned [fst (watch_action night_clock ''Priya''
       ''flagged_transaction'' priya_context (init_agent empty_database))]) = [''CRITICAL'']"
proof -
  have day: "7 \<le> hour (now_rules noon_clock) \<and> hour (now_rules noon_clock) \<le> 22"
    by (simp add: noon_reads noon_hour)
  have late: "23 \<le> hour (now_rules late_clock)"
    by (simp add: late_reads late_hour)
  have early: "hour (now_rules night_clock) \<le> 6"
    by (simp add: night_reads night_hour)
  have empty: "alerts (db_manager (init_agent empty_database)) = []"
    by (simp add: init_agent_def empty_database_def)
  show ?thesis
    using watch_action_priya_by_hour [of noon_clock "init_agent empty_database"]
      watch_action_priya_by_hour [of late_clock "init_agent empty_database"]
      watch_action_priya_by_hour [of night_clock "init_agent empty_database"]
      day late early
    by (simp add: empty)
qed

text \<open>
  C10 as stated fails: the same call made at 03:00 triggers \<^verbatim>\<open>unusual_time\<close> as a third
  rule, and the observation and the alert are CRITICAL.
\<close>

theorem watch_action_priya_night_counterexample:
  "analyze_risk (now_rules night_clock) priya_context =
     (''CRITICAL'', [''weekend_activity'', ''high_risk_score'', ''unusual_time'']) \<and>
   fst (watch_action night_clock ''Priya'' ''flagged_transaction'' priya_context
          (init_agent empty_database)) =
     Inr \<lparr>timestamp = at_night, user = ''Priya'', action = ''flagged_transaction'',
          obs_context = priya_context, risk_level = ''CRITICAL'', alert_triggered = True,
          processed = False\<rparr> \<and>
   map a_severity (alerts (db_manager (snd (watch_action night_clock ''Priya''
       ''flagged_transaction'' priya_context (init_agent empty_database))))) = [''CRITICAL'']"
proof -
  have "fst (watch_action night_clock ''Priya'' ''flagged_transaction'' priya_context
          (init_agent empty_database)) =
     Inr \<lparr>timestamp = at_night, user = ''Priya'', action = ''flagged_transaction'',
          obs_context = priya_context, risk_level = ''CRITICAL'', alert_triggered = True,
          processed = False\<rparr>"
    by (simp add: watch_action_returns [OF priya_serialises] observed_def night_reads
        analyze_night_priya)
  moreover have "map a_severity (alerts (db_manager (snd (watch_action night_clock ''Priya''
       ''flagged_transaction'' priya_context (init_agent empty_database))))) = [''CRITICAL'']"
    by (simp add: watch_action_alerts alert_of_def night_reads analyze_night_priya
        init_agent_def empty_database_def)
  ultimately show ?thesis by (simp add: night_reads analyze_night_priya)
qed

section \<open>Contexts that carry a datetime\<close>

text \<open>
  The form handler and the simulator of the repository put \<^verbatim>\<open>datetime.now()\<close> into the
  context under \<^verbatim>\<open>timestamp\<close>, where the rule \<^verbatim>\<open>unusual_time\<close> expects a datetime.
  \<^verbatim>\<open>json.dumps\<close> in \<^verbatim>\<open>save_observation\<close> raises on such a context.
\<close>

lemma form_raises: "json_dumps form_context = Inl TypeError"
  by (simp add: form_context_def)

lemma analyze_noon_form:
  "analyze_risk at_noon form_context =
     (''CRITICAL'', [''high_amount'', ''suspicious_country'', ''weekend_activity'',
                     ''high_risk_score'', ''multiple_attempts''])"
  by (simp add: analyze_risk_def analyze_rules_def risk_of_count_def rule_defs input_defs)

lemma watch_action_critical_when_serialised:
  assumes "3 \<le> length (filter (triggers (now_rules clk) ctx) risk_rules)"
    and "json_dumps ctx = Inr blob"
  shows "fst (watch_action clk usr act ctx s) =
           Inr \<lparr>timestamp = now_observation clk, user = usr, action = act, obs_context = ctx,
                risk_level = ''CRITICAL'', alert_triggered = True, processed = False\<rparr> \<and>
         map a_severity (alerts (db_manager (snd (watch_action clk usr act ctx s)))) =
           map a_severity (alerts (db_manager s)) @ [''CRITICAL'']"
proof -
  have "fst (analyze_risk (now_rules clk) ctx) = ''CRITICAL''"
    using assms(1)
    by (simp add: analyze_risk_def analyze_rules_def risk_of_count_def eval_rules_filter)
  then show ?thesis
    by (simp add: watch_action_returns [OF assms(2)] watch_action_alerts observed_def alert_of_def)
qed

text \<open>
  C2 at the context the form handler builds (five rules trigger, \<^verbatim>\<open>timestamp\<close> holds a
  datetime): the alert of severity CRITICAL is inserted, then \<^verbatim>\<open>save_observation\<close> raises
  \<^verbatim>\<open>TypeError\<close>; the call returns no observation, and neither the observations table nor
  the cache receives one. For contexts that serialise, the lemma
  \<open>watch_action_critical_when_serialised\<close> above gives what C2 says.
\<close>

theorem watch_action_critical_form_raises:
  "3 \<le> length (snd (analyze_risk (now_rules noon_clock) form_context)) \<and>
   fst (watch_action noon_clock ''David'' ''flagged_transaction'' form_context
          (init_agent empty_database)) = Inl TypeError \<and>
   map a_severity (alerts (db_manager (snd (watch_action noon_clock ''David''
       ''flagged_transaction'' form_context (init_agent empty_database))))) = [''CRITICAL''] \<and>
   observations (db_manager (snd (watch_action noon_clock ''David''
       ''flagged_transaction'' form_context (init_agent empty_database)))) = [] \<and>
   observed_actions (snd (watch_action noon_clock ''David''
       ''flagged_transaction'' form_context (init_agent empty_database))) = []"
  by (simp add: watch_action_raises [OF form_raises] noon_reads analyze_noon_form alert_of_def
      init_agent_def empty_database_def)

lemma timestamped_raises: "json_dumps timestamped_context = Inl TypeError"
  by (simp add: timestamped_context_def)

text \<open>
  C9 at an observation whose context is \<^verbatim>\<open>{amount: 0, timestamp: datetime}\<close>:
  \<^verbatim>\<open>save_observation\<close> raises \<^verbatim>\<open>TypeError\<close> instead of storing the context, and so does
  the \<^verbatim>\<open>watch_action\<close> call that builds this observation; no row is written that could be
  read back.
\<close>

theorem save_observation_datetime_raises:
  "save_observation empty_database
     \<lparr>timestamp = at_noon, user = ''Alice'', action = ''login_attempt'',
      obs_context = timestamped_context, risk_level = ''LOW'', alert_triggered = True,
      processed = False\<rparr> = Inl TypeError \<and>
   fst (watch_action noon_clock ''Alice'' ''login_attempt'' timestamped_context
          (init_agent empty_database)) = Inl TypeError \<and>
   observations (db_manager (snd (watch_action noon_clock ''Alice'' ''login_attempt''
       timestamped_context (init_agent empty_database)))) = []"
  by (simp add: save_observation_def timestamped_raises watch_action_raises [OF timestamped_raises]
      init_agent_def empty_database_def)

end
